theory Spec2Isabelle
  imports Main "HOL-Library.Sublist" "HOL-Library.Word"
begin

section \<open>Python values and exceptions\<close>

text \<open>
  The backend is Python. Its three modules call three libraries whose code is not part
  of the repository: PyPDF2 (\<open>PdfReader\<close>), the OpenAI client
  (\<open>openai.ChatCompletion.acreate\<close>) and the standard \<open>json\<close> module
  (\<open>json.loads\<close>). Each is a parameter of the function that calls it, so every
  theorem holds for every behaviour of the library, and an outcome of a library call is
  either a value or a raised exception.

  An exception is its class, as far as the \<open>except\<close> clauses of the repository
  tell classes apart, and the text \<open>str(e)\<close>. \<open>NonException\<close> stands for
  the classes that derive from \<open>BaseException\<close> but not from \<open>Exception\<close>
  (\<open>KeyboardInterrupt\<close>, \<open>asyncio.CancelledError\<close>): no
  \<open>except Exception\<close> clause catches them.
\<close>

datatype exc_kind =
    PdfReadError
  | APIError
  | JSONDecodeError
  | AttributeError
  | TypeError
  | IndexError
  | EnvironmentError
  | OtherException
  | NonException

datatype py_exc = PyExc (kind: exc_kind) (str_of: string)

definition is_Exception :: "py_exc \<Rightarrow> bool" where
  "is_Exception e = (kind e \<noteq> NonException)"

text \<open>
  The values \<open>json.loads\<close> returns: \<open>None\<close>, a bool, an int, a float (its 64
  bits; the code only tests its type), a str, a list or a dict. A dict is an association
  list read with \<open>map_of\<close>.
\<close>

datatype pyval =
    PNone
  | PBool bool
  | PInt int
  | PFloat "64 word"
  | PStr string
  | PList "pyval list"
  | PDict "(string \<times> pyval) list"

type_synonym bytes = "8 word list"

section \<open>pdf\_processor.py\<close>

text \<open>
  A page of a PyPDF2 reader is the outcome of its \<open>extract_text()\<close>: a string,
  \<open>None\<close>, or a raised exception. A reader is the outcome of reading its
  \<open>pages\<close> (an encrypted document raises there, not in the constructor).
\<close>

record page =
  extract_text :: "py_exc + string option"

record pdf_reader =
  pages :: "py_exc + page list"

text \<open>\<open>x or ""\<close> for a value that is a string or \<open>None\<close>.\<close>

definition or_empty :: "string option \<Rightarrow> string" where
  "or_empty t = (case t of None \<Rightarrow> [] | Some s \<Rightarrow> (if s = [] then [] else s))"

text \<open>
  The loop \<open>for page_num in range(len(pdf_reader.pages))\<close> with its accumulator
  \<open>text\<close>: \<open>page_num\<close> runs from its start value to the number of pages.
\<close>

function pages_loop :: "page list \<Rightarrow> nat \<Rightarrow> string \<Rightarrow> py_exc + string" where
  "pages_loop ps page_num text =
     (if page_num < length ps then
        (case extract_text (ps ! page_num) of
           Inl e \<Rightarrow> Inl e
         | Inr t \<Rightarrow> pages_loop ps (Suc page_num) (text @ or_empty t))
      else Inr text)"
  by pat_completeness auto
termination
  by (relation "measure (\<lambda>(ps, page_num, text). length ps - page_num)") auto

declare pages_loop.simps [simp del]

text \<open>The body of the \<open>try\<close> block of \<open>extract_text_from_pdf\<close>.\<close>

definition extract_body :: "(bytes \<Rightarrow> py_exc + pdf_reader) \<Rightarrow> bytes \<Rightarrow> py_exc + string" where
  "extract_body PdfReader pdf_file_bytes =
     (case PdfReader pdf_file_bytes of
        Inl e \<Rightarrow> Inl e
      | Inr reader \<Rightarrow>
          (case pages reader of
             Inl e \<Rightarrow> Inl e
           | Inr ps \<Rightarrow> pages_loop ps 0 []))"

text \<open>
  \<open>extract_text_from_pdf\<close>: the \<open>try\<close> block with its two handlers,
  \<open>except PyPDF2.errors.PdfReadError\<close> and \<open>except Exception\<close>, both
  returning the empty string.
\<close>

definition extract_text_from_pdf :: "(bytes \<Rightarrow> py_exc + pdf_reader) \<Rightarrow> bytes \<Rightarrow> py_exc + string" where
  "extract_text_from_pdf PdfReader pdf_file_bytes =
     (case extract_body PdfReader pdf_file_bytes of
        Inr text \<Rightarrow> Inr text
      | Inl e \<Rightarrow>
          if kind e = PdfReadError then Inr []
          else if is_Exception e then Inr []
          else Inl e)"

text \<open>The text a page contributes when its extraction does not raise.\<close>

definition page_text :: "page \<Rightarrow> string" where
  "page_text p = (case extract_text p of Inl e \<Rightarrow> [] | Inr t \<Rightarrow> or_empty t)"

definition page_yields :: "page \<Rightarrow> bool" where
  "page_yields p = (case extract_text p of Inl e \<Rightarrow> False | Inr t \<Rightarrow> True)"

section \<open>gpt\_analyzer.py\<close>

text \<open>
  Python strings are lists of characters, a character being a code point below 256.
  \<open>isspace\<close> is \<open>str.isspace\<close> on one such code point, and \<open>strip\<close> is
  \<open>str.strip()\<close>, which removes leading and trailing whitespace.
\<close>

definition isspace :: "char \<Rightarrow> bool" where
  "isspace c = (of_char c \<in> set [9, 10, 11, 12, 13, 28, 29, 30, 31, 32, 133, 160 :: nat])"

definition strip :: "string \<Rightarrow> string" where
  "strip s = rev (dropWhile isspace (rev (dropWhile isspace s)))"

text \<open>The keyword arguments of \<open>openai.ChatCompletion.acreate\<close>; \<open>temperature\<close>
  holds the 64 bits of the float \<open>0.3\<close>, a message is its role and its content.\<close>

record request =
  model :: string
  messages :: "(string \<times> string) list"
  temperature :: "64 word"
  response_format :: "(string \<times> string) list"

text \<open>The reply, as far as the code reads it: \<open>response.choices[0].message.content\<close>.\<close>

record message =
  content :: pyval

record choice =
  message :: message

record response =
  choices :: "choice list"

text \<open>What a call leaves behind: the requests sent to the transport and the lines printed.\<close>

record world =
  requests :: "request list"
  stdout :: "string list"

definition system_prompt :: string where
  "system_prompt = concat [
       ''You are a helpful assistant specialized in contract law and analysis.'' @ [CHR 0x0A],
       ''Your task is to review a contract text, simplify it into plain English, and identify any clauses that might be unfavorable to one party or potential cons.'' @ [CHR 0x0A],
       ''Present the output clearly, with a summary section and a list of cons.'' @ [CHR 0x0A],
       ''Respond in JSON format with two keys: '' @ [CHR 0x22] @ ''simplified_contract'' @ [CHR 0x22] @ '' and '' @ [CHR 0x22] @ ''cons'' @ [CHR 0x22] @ ''.'' @ [CHR 0x0A],
       ''The '' @ [CHR 0x22] @ ''simplified_contract'' @ [CHR 0x22] @ '' should be a string.'' @ [CHR 0x0A],
       ''The '' @ [CHR 0x22] @ ''cons'' @ [CHR 0x22] @ '' should be a list of strings, where each string is a specific con or unfavorable clause found.'' @ [CHR 0x0A],
       ''If no specific cons are found, the '' @ [CHR 0x22] @ ''cons'' @ [CHR 0x22] @ '' list should be empty.'' @ [CHR 0x0A],
       ''Example JSON output:'' @ [CHR 0x0A],
       ''{'' @ [CHR 0x0A],
       ''  '' @ [CHR 0x22] @ ''simplified_contract'' @ [CHR 0x22] @ '': '' @ [CHR 0x22] @ ''This is a plain English summary of the contract...'' @ [CHR 0x22] @ '','' @ [CHR 0x0A],
       ''  '' @ [CHR 0x22] @ ''cons'' @ [CHR 0x22] @ '': ['' @ [CHR 0x0A],
       ''    '' @ [CHR 0x22] @ ''Clause 3.1: The termination conditions are heavily skewed in favor of Party A.'' @ [CHR 0x22] @ '','' @ [CHR 0x0A],
       ''    '' @ [CHR 0x22] @ ''Section 5: The liability cap for Party B is unusually low.'' @ [CHR 0x22] @ [CHR 0x0A],
       ''  ]'' @ [CHR 0x0A],
       ''}'' @ [CHR 0x0A]]"

definition user_prompt :: "string \<Rightarrow> string" where
  "user_prompt contract_text =
     ''Please analyze the following contract text:'' @ [CHR 0x0A, CHR 0x0A] @
     [CHR 0x60, CHR 0x60, CHR 0x60, CHR 0x0A] @ contract_text @
     [CHR 0x0A, CHR 0x60, CHR 0x60, CHR 0x60]"

definition chat_request :: "string \<Rightarrow> string \<Rightarrow> request" where
  "chat_request contract_text mdl =
     \<lparr>model = mdl,
      messages = [(''system'', system_prompt), (''user'', user_prompt contract_text)],
      temperature = 0x3FD3333333333333,
      response_format = [(''type'', ''json_object'')]\<rparr>"

definition default_model :: string where
  "default_model = ''gpt-3.5-turbo''"

text \<open>\<open>type(v).__name__\<close>, which Python's error messages quote.\<close>

definition type_name :: "pyval \<Rightarrow> string" where
  "type_name v =
     (case v of
        PNone \<Rightarrow> ''NoneType''
      | PBool b \<Rightarrow> ''bool''
      | PInt i \<Rightarrow> ''int''
      | PFloat x \<Rightarrow> ''float''
      | PStr s \<Rightarrow> ''str''
      | PList xs \<Rightarrow> ''list''
      | PDict kvs \<Rightarrow> ''dict'')"

text \<open>\<open>response.choices[0].message.content\<close>: an empty list of choices raises
  \<open>IndexError\<close>.\<close>

definition first_content :: "response \<Rightarrow> py_exc + pyval" where
  "first_content resp =
     (case choices resp of
        [] \<Rightarrow> Inl (PyExc IndexError ''list index out of range'')
      | c # cs \<Rightarrow> Inr (content (message c)))"

text \<open>\<open>json.loads(content)\<close>: the parser \<open>loads\<close> is the library's, on a string;
  on a value that is not a string \<open>json.loads\<close> raises \<open>TypeError\<close>.\<close>

definition json_loads :: "(string \<Rightarrow> py_exc + pyval) \<Rightarrow> pyval \<Rightarrow> py_exc + pyval" where
  "json_loads loads v =
     (case v of
        PStr s \<Rightarrow> loads s
      | _ \<Rightarrow> Inl (PyExc TypeError
                 (''the JSON object must be str, bytes or bytearray, not '' @ type_name v)))"

text \<open>\<open>d.get(k, dflt)\<close>: only a dict has the method; any other value raises
  \<open>AttributeError\<close>.\<close>

definition dict_get :: "pyval \<Rightarrow> string \<Rightarrow> pyval \<Rightarrow> py_exc + pyval" where
  "dict_get d k dflt =
     (case d of
        PDict kvs \<Rightarrow> Inr (case map_of kvs k of None \<Rightarrow> dflt | Some v \<Rightarrow> v)
      | _ \<Rightarrow> Inl (PyExc AttributeError
                 ([CHR 0x27] @ type_name d @ [CHR 0x27] @ '' object has no attribute '' @
                  [CHR 0x27] @ ''get'' @ [CHR 0x27])))"

definition isinstance_list :: "pyval \<Rightarrow> bool" where
  "isinstance_list v = (case v of PList xs \<Rightarrow> True | _ \<Rightarrow> False)"

definition isinstance_str :: "pyval \<Rightarrow> bool" where
  "isinstance_str v = (case v of PStr s \<Rightarrow> True | _ \<Rightarrow> False)"

text \<open>\<open>all(isinstance(item, str) for item in cons)\<close>, evaluated only when \<open>cons\<close>
  is a list.\<close>

definition all_items_str :: "pyval \<Rightarrow> bool" where
  "all_items_str v = (case v of PList xs \<Rightarrow> list_all isinstance_str xs | _ \<Rightarrow> False)"

definition cons_format_message :: string where
  "cons_format_message = ''GPT response for cons was not in the expected format (list of strings).''"

text \<open>The check \<open>if not isinstance(cons, list) or not all(...)\<close>, the second test
  evaluated only when the first fails, as \<open>or\<close> does.\<close>

definition ensure_cons :: "pyval \<Rightarrow> pyval" where
  "ensure_cons cons =
     (if \<not> isinstance_list cons then PList [PStr cons_format_message]
      else if \<not> all_items_str cons then PList [PStr cons_format_message]
      else cons)"

text \<open>\<open>s + v\<close> for a string \<open>s\<close>: a value that is not a string raises
  \<open>TypeError\<close>.\<close>

definition str_add :: "string \<Rightarrow> pyval \<Rightarrow> py_exc + pyval" where
  "str_add s v =
     (case v of
        PStr t \<Rightarrow> Inr (PStr (s @ t))
      | _ \<Rightarrow> Inl (PyExc TypeError
                 (''can only concatenate str (not '' @ [CHR 0x22] @ type_name v @ [CHR 0x22] @
                  '') to str'')))"

text \<open>The body of the inner \<open>try\<close> block: parse, read the two keys, check \<open>cons\<close>.\<close>

definition parse_body :: "(string \<Rightarrow> py_exc + pyval) \<Rightarrow> pyval \<Rightarrow> py_exc + (pyval \<times> pyval)" where
  "parse_body loads v =
     (case json_loads loads v of
        Inl e \<Rightarrow> Inl e
      | Inr analysis_result \<Rightarrow>
          (case dict_get analysis_result ''simplified_contract''
                  (PStr ''Could not extract simplified contract.'') of
             Inl e \<Rightarrow> Inl e
           | Inr simplified_contract \<Rightarrow>
               (case dict_get analysis_result ''cons'' (PList []) of
                  Inl e \<Rightarrow> Inl e
                | Inr cons \<Rightarrow> Inr (simplified_contract, ensure_cons cons))))"

text \<open>The inner \<open>try\<close> block with its handlers \<open>except json.JSONDecodeError\<close> and
  \<open>except AttributeError\<close>; an exception raised inside a handler, or not matched by
  either, goes on to the outer \<open>try\<close>.\<close>

definition parse_reply :: "(string \<Rightarrow> py_exc + pyval) \<Rightarrow> pyval \<Rightarrow> py_exc + (pyval \<times> pyval)" where
  "parse_reply loads v =
     (case parse_body loads v of
        Inr r \<Rightarrow> Inr r
      | Inl e \<Rightarrow>
          if kind e = JSONDecodeError then
            (case str_add ''Failed to parse GPT response as JSON. The raw response was: '' v of
               Inl e' \<Rightarrow> Inl e'
             | Inr s \<Rightarrow> Inr (s, PList []))
          else if kind e = AttributeError then
            Inr (PStr ''Unexpected response structure from GPT.'', PList [])
          else Inl e)"

text \<open>The body of the outer \<open>try\<close> block, after the request is built.\<close>

definition call_body ::
  "(request \<Rightarrow> py_exc + response) \<Rightarrow> (string \<Rightarrow> py_exc + pyval) \<Rightarrow> request \<Rightarrow>
   py_exc + (pyval \<times> pyval)" where
  "call_body acreate loads rq =
     (case acreate rq of
        Inl e \<Rightarrow> Inl e
      | Inr resp \<Rightarrow>
          (case first_content resp of
             Inl e \<Rightarrow> Inl e
           | Inr v \<Rightarrow> parse_reply loads v))"

text \<open>
  \<open>analyze_contract_text(contract_text, model)\<close>: the guard on empty text, the call,
  and the outer handlers \<open>except openai.APIError\<close> and \<open>except Exception\<close>, each
  printing a line and returning a summary with an empty list. The result is the returned
  pair, or the exception that leaves the function.
\<close>

definition analyze_contract_text ::
  "(request \<Rightarrow> py_exc + response) \<Rightarrow> (string \<Rightarrow> py_exc + pyval) \<Rightarrow> string \<Rightarrow> string \<Rightarrow>
   world \<Rightarrow> (py_exc + (pyval \<times> pyval)) \<times> world" where
  "analyze_contract_text acreate loads contract_text mdl w =
     (if strip contract_text = [] then
        (Inr (PStr ''The provided contract text is empty.'', PList []), w)
      else
        let rq = chat_request contract_text mdl;
            w1 = w\<lparr>requests := requests w @ [rq]\<rparr>
        in (case call_body acreate loads rq of
              Inr r \<Rightarrow> (Inr r, w1)
            | Inl e \<Rightarrow>
                if kind e = APIError then
                  (Inr (PStr (''OpenAI API Error: '' @ str_of e), PList []),
                   w1\<lparr>stdout := stdout w1 @ [''OpenAI API Error: '' @ str_of e]\<rparr>)
                else if is_Exception e then
                  (Inr (PStr (''An unexpected error occurred during analysis: '' @ str_of e),
                        PList []),
                   w1\<lparr>stdout := stdout w1 @ [''Error during GPT analysis: '' @ str_of e]\<rparr>)
                else (Inl e, w1)))"

section \<open>main.py\<close>

text \<open>
  \<open>str.lower()\<close> on one code point below 256: the letters \<open>A\<close> to \<open>Z\<close> and
  the capital letters of Latin-1 (192 to 222, the multiplication sign 215 apart) move 32
  up. \<open>endswith\<close> is \<open>str.endswith\<close>.
\<close>

definition lower_char :: "char \<Rightarrow> char" where
  "lower_char c =
     (let n = (of_char c :: nat) in
      if 65 \<le> n \<and> n \<le> 90 then char_of (n + 32)
      else if 192 \<le> n \<and> n \<le> 222 then (if n = 215 then c else char_of (n + 32))
      else c)"

definition lower :: "string \<Rightarrow> string" where
  "lower s = map lower_char s"

definition endswith :: "string \<Rightarrow> string \<Rightarrow> bool" where
  "endswith s suf = suffix suf s"

text \<open>The upload, as far as the handler reads it: \<open>file.filename\<close>,
  \<open>file.content_type\<close> (\<open>None\<close> when the part declares none) and the bytes of
  \<open>file.file\<close> (the field \<open>file_bytes\<close>).\<close>

record upload_file =
  filename :: string
  content_type :: "string option"
  file_bytes :: bytes

text \<open>
  How a call of the handler ends: it returns the response body (FastAPI answers 200),
  raises \<open>HTTPException(status_code, detail)\<close>, or lets another exception through.
\<close>

datatype endpoint_result =
    Returned pyval
  | HTTPException nat string
  | Uncaught py_exc

definition status_code :: "endpoint_result \<Rightarrow> nat" where
  "status_code r =
     (case r of Returned body \<Rightarrow> 200 | HTTPException s d \<Rightarrow> s | Uncaught e \<Rightarrow> 500)"

definition invalid_file_type :: string where
  "invalid_file_type = ''Invalid file type. Only PDF files are accepted.''"

definition invalid_content_type :: string where
  "invalid_content_type = ''Invalid file content type. Expected application/pdf.''"

definition no_text_detail :: string where
  "no_text_detail =
     ''Could not extract text from the PDF. It might be empty, image-based, or corrupted.''"

text \<open>
  \<open>analyze_contract_endpoint(file)\<close>. \<open>tmp_io\<close> is the first \<open>try\<close> block:
  the upload copied to a temporary file and read back, which gives the bytes or raises.
  Removing the temporary file changes no response and is left out. The analysis is called
  with the default model.
\<close>

definition analyze_contract_endpoint ::
  "(bytes \<Rightarrow> py_exc + bytes) \<Rightarrow> (bytes \<Rightarrow> py_exc + pdf_reader) \<Rightarrow>
   (request \<Rightarrow> py_exc + response) \<Rightarrow> (string \<Rightarrow> py_exc + pyval) \<Rightarrow>
   upload_file \<Rightarrow> world \<Rightarrow> endpoint_result \<times> world" where
  "analyze_contract_endpoint tmp_io PdfReader acreate loads f w =
     (if \<not> endswith (lower (filename f)) ''.pdf'' then
        (HTTPException 400 invalid_file_type, w)
      else if \<not> (content_type f = Some ''application/pdf'') then
        (HTTPException 400 invalid_content_type, w)
      else
        (case tmp_io (file_bytes f) of
           Inl e \<Rightarrow>
             if is_Exception e then
               (HTTPException 500 (''Failed to save or read uploaded PDF: '' @ str_of e), w)
             else (Uncaught e, w)
         | Inr pdf_bytes \<Rightarrow>
             (case extract_text_from_pdf PdfReader pdf_bytes of
                Inl e \<Rightarrow> (Uncaught e, w)
              | Inr extracted_text \<Rightarrow>
                  if strip extracted_text = [] then (HTTPException 422 no_text_detail, w)
                  else
                    (case analyze_contract_text acreate loads extracted_text default_model w of
                       (Inl e, w') \<Rightarrow>
                         if kind e = EnvironmentError then (HTTPException 500 (str_of e), w')
                         else if is_Exception e then
                           (HTTPException 500 (''Error during GPT analysis: '' @ str_of e), w')
                         else (Uncaught e, w')
                     | (Inr (simplified_contract, cons), w') \<Rightarrow>
                         if simplified_contract = PNone \<and> cons = PNone then
                           (HTTPException 500 ''Contract analysis failed to produce a result.'', w')
                         else
                           (Returned (PDict [(''original_filename'', PStr (filename f)),
                                             (''simplified_contract'', simplified_contract),
                                             (''cons'', cons)]), w')))))"

text \<open>The eight ways of writing the extension \<open>.pdf\<close> in upper and lower case.\<close>

definition pdf_extension_variants :: "string list" where
  "pdf_extension_variants =
     [''.pdf'', ''.pdF'', ''.pDf'', ''.pDF'', ''.Pdf'', ''.PdF'', ''.PDf'', ''.PDF'']"

section \<open>Sample inputs\<close>

text \<open>
  Concrete replies, uploads and library behaviours, at which the theorems below are
  evaluated. \<open>numeric_summary_reply\<close> is the reply
  \<^verbatim>\<open>{"simplified_contract": 42, "cons": []}\<close> and \<open>well_formed_reply\<close> the reply
  \<^verbatim>\<open>{"simplified_contract": "X", "cons": ["Y"]}\<close>. \<open>scanned_reader\<close> reads a
  document of one page without text, \<open>text_reader\<close> one of one page with text;
  \<open>tmp_ok\<close> is a temporary file that reads back what was written.
\<close>

definition numeric_summary_reply :: string where
  "numeric_summary_reply =
     ''{'' @ [CHR 0x22] @ ''simplified_contract'' @ [CHR 0x22] @ '': 42, '' @
     [CHR 0x22] @ ''cons'' @ [CHR 0x22] @ '': []}''"

definition well_formed_reply :: string where
  "well_formed_reply =
     ''{'' @ [CHR 0x22] @ ''simplified_contract'' @ [CHR 0x22] @ '': '' @ [CHR 0x22] @ ''X'' @
     [CHR 0x22] @ '', '' @ [CHR 0x22] @ ''cons'' @ [CHR 0x22] @ '': ['' @ [CHR 0x22] @ ''Y'' @
     [CHR 0x22] @ '']}''"

definition sample_upload :: "string \<Rightarrow> string option \<Rightarrow> upload_file" where
  "sample_upload name ctype =
     \<lparr>filename = name, content_type = ctype, file_bytes = [0x25, 0x50, 0x44, 0x46]\<rparr>"

definition tmp_ok :: "bytes \<Rightarrow> py_exc + bytes" where
  "tmp_ok b = Inr b"

definition scanned_reader :: "bytes \<Rightarrow> py_exc + pdf_reader" where
  "scanned_reader b = Inr \<lparr>pages = Inr [\<lparr>extract_text = Inr None\<rparr>]\<rparr>"

definition text_reader :: "bytes \<Rightarrow> py_exc + pdf_reader" where
  "text_reader b = Inr \<lparr>pages = Inr [\<lparr>extract_text = Inr (Some ''This Agreement is made.'')\<rparr>]\<rparr>"

definition reply_transport :: "request \<Rightarrow> py_exc + response" where
  "reply_transport rq = Inr \<lparr>choices = [\<lparr>message = \<lparr>content = PStr well_formed_reply\<rparr>\<rparr>]\<rparr>"

definition reply_loads :: "string \<Rightarrow> py_exc + pyval" where
  "reply_loads s =
     (if s = well_formed_reply then
        Inr (PDict [(''simplified_contract'', PStr ''X''), (''cons'', PList [PStr ''Y''])])
      else Inl (PyExc JSONDecodeError ''Expecting value''))"

definition fresh_world :: world where
  "fresh_world = \<lparr>requests = [], stdout = []\<rparr>"

section \<open>Properties of text extraction\<close>

lemma pages_loop_yields:
  "list_all page_yields (drop i ps) \<Longrightarrow>
   pages_loop ps i acc = Inr (acc @ concat (map page_text (drop i ps)))"
proof (induction ps i acc rule: pages_loop.induct)
  case (1 ps page_num acc)
  show ?case
  proof (cases "page_num < length ps")
    case False
    then show ?thesis by (simp add: pages_loop.simps)
  next
    case True
    then have d: "drop page_num ps = ps ! page_num # drop (Suc page_num) ps"
      by (simp add: Cons_nth_drop_Suc)
    from "1.prems" d have y: "page_yields (ps ! page_num)"
      and rest: "list_all page_yields (drop (Suc page_num) ps)"
      by simp_all
    from y obtain t where t: "extract_text (ps ! page_num) = Inr t"
      by (auto simp: page_yields_def split: sum.splits)
    have "pages_loop ps (Suc page_num) (acc @ or_empty t) =
          Inr ((acc @ or_empty t) @ concat (map page_text (drop (Suc page_num) ps)))"
      using "1.IH" [OF True t rest] .
    moreover from t have "page_text (ps ! page_num) = or_empty t"
      by (simp add: page_text_def)
    ultimately show ?thesis
      using True t d by (simp add: pages_loop.simps [of ps page_num])
  qed
qed




text \<open>
  C8. For a document that parses into pages \<open>ps\<close>, none of which raises on
  extraction, \<open>extract_text_from_pdf\<close> returns the concatenation of the pages'
  texts in page order, a page yielding \<open>None\<close> or the empty string contributing
  the empty string.
\<close>

theorem extract_text_from_pdf_concat:
  assumes "PdfReader b = Inr r" and "pages r = Inr ps" and "list_all page_yields ps"
  shows "extract_text_from_pdf PdfReader b = Inr (concat (map page_text ps))"
proof -
  from assms(3) have "pages_loop ps 0 [] = Inr ([] @ concat (map page_text (drop 0 ps)))"
    by (intro pages_loop_yields) simp
  with assms(1,2) show ?thesis
    by (simp add: extract_text_from_pdf_def extract_body_def)
qed

theorem extract_text_from_pdf_concat_witness:
  "extract_text_from_pdf
     (\<lambda>b. Inr \<lparr>pages = Inr [\<lparr>extract_text = Inr (Some ''Page one. '')\<rparr>,
                             \<lparr>extract_text = Inr None\<rparr>,
                             \<lparr>extract_text = Inr (Some ''Page three.'')\<rparr>]\<rparr>)
     [0x25, 0x50, 0x44, 0x46]
   = Inr ''Page one. Page three.''"
  using extract_text_from_pdf_concat
    [where PdfReader = "\<lambda>b. Inr \<lparr>pages = Inr [\<lparr>extract_text = Inr (Some ''Page one. '')\<rparr>,
                             \<lparr>extract_text = Inr None\<rparr>,
                             \<lparr>extract_text = Inr (Some ''Page three.'')\<rparr>]\<rparr>"
       and b = "[0x25, 0x50, 0x44, 0x46]"
       and r = "\<lparr>pages = Inr [\<lparr>extract_text = Inr (Some ''Page one. '')\<rparr>,
                             \<lparr>extract_text = Inr None\<rparr>,
                             \<lparr>extract_text = Inr (Some ''Page three.'')\<rparr>]\<rparr>"
       and ps = "[\<lparr>extract_text = Inr (Some ''Page one. '')\<rparr>,
                             \<lparr>extract_text = Inr None\<rparr>,
                             \<lparr>extract_text = Inr (Some ''Page three.'')\<rparr>]"]
  by (simp add: page_yields_def page_text_def or_empty_def)

section \<open>Properties of the analysis\<close>

lemma strip_all_space: "list_all isspace s \<Longrightarrow> strip s = []"
  by (auto simp: strip_def list_all_iff dest: set_dropWhileD)

text \<open>The guard \<open>if not contract_text.strip()\<close> holds exactly for a text of whitespace
  only.\<close>

lemma strip_empty_iff: "strip s = [] \<longleftrightarrow> list_all isspace s"
proof
  assume e: "strip s = []"
  have "dropWhile isspace s = []"
  proof (rule ccontr)
    assume n: "dropWhile isspace s \<noteq> []"
    then have "\<not> isspace (hd (dropWhile isspace s))"
      by (rule hd_dropWhile)
    moreover from n have "hd (dropWhile isspace s) \<in> set (dropWhile isspace s)"
      by simp
    moreover from e have "\<forall>x \<in> set (dropWhile isspace s). isspace x"
      by (simp add: strip_def)
    ultimately show False by blast
  qed
  then show "list_all isspace s"
    by (simp add: list_all_iff)
next
  assume "list_all isspace s"
  then show "strip s = []" by (rule strip_all_space)
qed

lemma strip_sample_text: "strip ''Some contract text'' \<noteq> []"
  by (simp add: strip_def isspace_def)

text \<open>The result of a call on a text that passes the guard, read off the outer
  \<open>try\<close>.\<close>

lemma analyze_call:
  "strip contract_text \<noteq> [] \<Longrightarrow>
   fst (analyze_contract_text acreate loads contract_text mdl w) =
     (case call_body acreate loads (chat_request contract_text mdl) of
        Inr r \<Rightarrow> Inr r
      | Inl e \<Rightarrow>
          if kind e = APIError then Inr (PStr (''OpenAI API Error: '' @ str_of e), PList [])
          else if is_Exception e then
            Inr (PStr (''An unexpected error occurred during analysis: '' @ str_of e), PList [])
          else Inl e)"
  by (simp add: analyze_contract_text_def Let_def split: sum.splits)

lemma call_body_reply:
  "acreate rq = Inr resp \<Longrightarrow> choices resp = c # cs \<Longrightarrow>
   call_body acreate loads rq = parse_reply loads (content (message c))"
  by (simp add: call_body_def first_content_def)

text \<open>The two tests on \<open>cons\<close> pass exactly for a list whose items are all strings.\<close>

lemma list_of_str_iff:
  "(isinstance_list v \<and> all_items_str v) \<longleftrightarrow> (\<exists>ss. v = PList (map PStr ss))"
proof
  assume "isinstance_list v \<and> all_items_str v"
  then obtain xs where v: "v = PList xs" and a: "list_all isinstance_str xs"
    by (auto simp: isinstance_list_def all_items_str_def split: pyval.splits)
  from a have "\<exists>ss. xs = map PStr ss"
  proof (induction xs)
    case Nil
    then show ?case by simp
  next
    case (Cons x xs)
    then obtain ss where "xs = map PStr ss" by auto
    moreover from Cons.prems obtain s where "x = PStr s"
      by (auto simp: isinstance_str_def split: pyval.splits)
    ultimately have "x # xs = map PStr (s # ss)" by simp
    then show ?case by (rule exI)
  qed
  with v show "\<exists>ss. v = PList (map PStr ss)" by auto
next
  assume "\<exists>ss. v = PList (map PStr ss)"
  then show "isinstance_list v \<and> all_items_str v"
    by (auto simp: isinstance_list_def all_items_str_def isinstance_str_def list_all_iff)
qed

lemma ensure_cons_ok: "ensure_cons (PList (map PStr ss)) = PList (map PStr ss)"
  using list_of_str_iff [of "PList (map PStr ss)"] by (auto simp: ensure_cons_def)

lemma ensure_cons_bad:
  "\<forall>ss. v \<noteq> PList (map PStr ss) \<Longrightarrow> ensure_cons v = PList [PStr cons_format_message]"
  using list_of_str_iff [of v] by (auto simp: ensure_cons_def)

text \<open>The result on a reply that parses as a JSON object: the two keys read with their
  defaults, the cons checked.\<close>

lemma analyze_reply_object:
  assumes "strip contract_text \<noteq> []"
    and "acreate (chat_request contract_text mdl) = Inr resp"
    and "choices resp = c # cs"
    and "content (message c) = PStr raw"
    and "loads raw = Inr (PDict kvs)"
  shows "fst (analyze_contract_text acreate loads contract_text mdl w) =
         Inr (case map_of kvs ''simplified_contract'' of
                None \<Rightarrow> PStr ''Could not extract simplified contract.''
              | Some s \<Rightarrow> s,
              ensure_cons (case map_of kvs ''cons'' of None \<Rightarrow> PList [] | Some v \<Rightarrow> v))"
  using assms
  by (simp add: analyze_call call_body_reply parse_reply_def parse_body_def json_loads_def
      dict_get_def)

text \<open>
  C2. For a text that is empty or holds only whitespace, \<open>analyze_contract_text\<close>
  returns the fixed summary "The provided contract text is empty." and an empty cons
  list, whatever the transport and the parser are, and leaves the record of requests and
  of printed lines as it was: no call is made.
\<close>

theorem analyze_empty_text:
  assumes "list_all isspace contract_text"
  shows "analyze_contract_text acreate loads contract_text mdl w =
         (Inr (PStr ''The provided contract text is empty.'', PList []), w)"
  using assms by (simp add: analyze_contract_text_def strip_all_space)

theorem analyze_empty_text_witness:
  "analyze_contract_text (\<lambda>rq. Inl (PyExc APIError ''unreachable''))
     (\<lambda>s. Inl (PyExc JSONDecodeError ''unused''))
     [CHR '' '', CHR 0x09, CHR 0x0A] default_model \<lparr>requests = [], stdout = []\<rparr>
   = (Inr (PStr ''The provided contract text is empty.'', PList []),
      \<lparr>requests = [], stdout = []\<rparr>)"
proof -
  have h: "list_all isspace [CHR '' '', CHR 0x09, CHR 0x0A]"
    by (simp add: isspace_def)
  show ?thesis
    by (rule analyze_empty_text [OF h])
qed

text \<open>
  C3. When the transport call raises an error (\<open>openai.APIError\<close>, or any other
  class deriving from \<open>Exception\<close>), \<open>analyze_contract_text\<close> raises nothing
  and returns a summary that ends with the error's description \<open>str(e)\<close>, after the
  prefix "OpenAI API Error: " for an \<open>APIError\<close> and "An unexpected error occurred
  during analysis: " otherwise, together with an empty cons list.
\<close>

theorem analyze_transport_error:
  assumes "strip contract_text \<noteq> []"
    and "acreate (chat_request contract_text mdl) = Inl e"
    and "is_Exception e"
  shows "fst (analyze_contract_text acreate loads contract_text mdl w) =
         Inr (PStr ((if kind e = APIError then ''OpenAI API Error: ''
                     else ''An unexpected error occurred during analysis: '') @ str_of e),
              PList [])"
  using assms by (simp add: analyze_call call_body_def)

theorem analyze_transport_error_witness:
  "fst (analyze_contract_text (\<lambda>rq. Inl (PyExc APIError ''Simulated API Error''))
          (\<lambda>s. Inl (PyExc JSONDecodeError ''unused''))
          ''Some contract text'' default_model \<lparr>requests = [], stdout = []\<rparr>)
   = Inr (PStr ''OpenAI API Error: Simulated API Error'', PList [])"
proof -
  have h2: "(\<lambda>rq. Inl (PyExc APIError ''Simulated API Error'') :: py_exc + response)
              (chat_request ''Some contract text'' default_model)
            = Inl (PyExc APIError ''Simulated API Error'')"
    by simp
  have h3: "is_Exception (PyExc APIError ''Simulated API Error'')"
    by (simp add: is_Exception_def)
  show ?thesis
    using analyze_transport_error [OF strip_sample_text h2 h3] by simp
qed



text \<open>
  C5. When the reply parses as a JSON object whose \<open>cons\<close> value is not a list of
  strings (a string, a number, \<open>null\<close>, or a list with an item that is not a string),
  \<open>analyze_contract_text\<close> returns as cons the list of exactly one fixed string,
  "GPT response for cons was not in the expected format (list of strings).", beside the
  summary read from the object (or its placeholder).
\<close>

theorem analyze_bad_cons:
  assumes "strip contract_text \<noteq> []"
    and "acreate (chat_request contract_text mdl) = Inr resp"
    and "choices resp = c # cs"
    and "content (message c) = PStr raw"
    and "loads raw = Inr (PDict kvs)"
    and "map_of kvs ''cons'' = Some v"
    and "\<forall>ss. v \<noteq> PList (map PStr ss)"
  shows "fst (analyze_contract_text acreate loads contract_text mdl w) =
         Inr (case map_of kvs ''simplified_contract'' of
                None \<Rightarrow> PStr ''Could not extract simplified contract.''
              | Some s \<Rightarrow> s,
              PList [PStr cons_format_message])"
  using analyze_reply_object [where acreate = acreate and loads = loads and w = w, OF assms(1-5)] assms(6,7)
  by (simp add: ensure_cons_bad)

theorem analyze_bad_cons_witness:
  "fst (analyze_contract_text
          (\<lambda>rq. Inr \<lparr>choices = [\<lparr>message = \<lparr>content = PStr ''reply''\<rparr>\<rparr>]\<rparr>)
          (\<lambda>s. Inr (PDict [(''simplified_contract'', PStr ''A summary.''),
                            (''cons'', PStr ''This should be a list but is a string.'')]))
          ''Some contract text'' default_model \<lparr>requests = [], stdout = []\<rparr>)
   = Inr (PStr ''A summary.'',
          PList [PStr ''GPT response for cons was not in the expected format (list of strings).''])"
proof -
  have h2: "(\<lambda>rq. Inr \<lparr>choices = [\<lparr>message = \<lparr>content = PStr ''reply''\<rparr>\<rparr>]\<rparr> :: py_exc + response)
              (chat_request ''Some contract text'' default_model)
            = Inr \<lparr>choices = [\<lparr>message = \<lparr>content = PStr ''reply''\<rparr>\<rparr>]\<rparr>"
    by simp
  have h3: "choices \<lparr>choices = [\<lparr>message = \<lparr>content = PStr ''reply''\<rparr>\<rparr>]\<rparr>
            = \<lparr>message = \<lparr>content = PStr ''reply''\<rparr>\<rparr> # []"
    by simp
  have h4: "content (message \<lparr>message = \<lparr>content = PStr ''reply''\<rparr>\<rparr>) = PStr ''reply''"
    by simp
  have h5: "(\<lambda>s. Inr (PDict [(''simplified_contract'', PStr ''A summary.''),
                            (''cons'', PStr ''This should be a list but is a string.'')])
              :: py_exc + pyval) ''reply''
            = Inr (PDict [(''simplified_contract'', PStr ''A summary.''),
                          (''cons'', PStr ''This should be a list but is a string.'')])"
    by simp
  have h6: "map_of [(''simplified_contract'', PStr ''A summary.''),
                    (''cons'', PStr ''This should be a list but is a string.'')] ''cons''
            = Some (PStr ''This should be a list but is a string.'')"
    by simp
  have h7: "\<forall>ss. PStr ''This should be a list but is a string.'' \<noteq> PList (map PStr ss)"
    by simp
  show ?thesis
    using analyze_bad_cons [OF strip_sample_text h2 h3 h4 h5 h6 h7]
    by (simp add: cons_format_message_def)
qed

text \<open>
  C6. When the reply parses as a JSON object whose \<open>simplified_contract\<close> is a string
  and whose \<open>cons\<close> is a list of strings, \<open>analyze_contract_text\<close> returns exactly
  these two values.
\<close>

theorem analyze_well_formed:
  assumes "strip contract_text \<noteq> []"
    and "acreate (chat_request contract_text mdl) = Inr resp"
    and "choices resp = c # cs"
    and "content (message c) = PStr raw"
    and "loads raw = Inr (PDict kvs)"
    and "map_of kvs ''simplified_contract'' = Some (PStr summary)"
    and "map_of kvs ''cons'' = Some (PList (map PStr items))"
  shows "fst (analyze_contract_text acreate loads contract_text mdl w) =
         Inr (PStr summary, PList (map PStr items))"
  using analyze_reply_object [where acreate = acreate and loads = loads and w = w, OF assms(1-5)] assms(6,7)
  by (simp add: ensure_cons_ok)

theorem analyze_well_formed_witness:
  "fst (analyze_contract_text
          (\<lambda>rq. Inr \<lparr>choices = [\<lparr>message = \<lparr>content = PStr ''reply''\<rparr>\<rparr>]\<rparr>)
          (\<lambda>s. Inr (PDict [(''simplified_contract'', PStr ''This is a simple summary.''),
                            (''cons'', PList [PStr ''Con 1: Bad clause.'',
                                              PStr ''Con 2: Another issue.''])]))
          ''Some contract text'' default_model \<lparr>requests = [], stdout = []\<rparr>)
   = Inr (PStr ''This is a simple summary.'',
          PList [PStr ''Con 1: Bad clause.'', PStr ''Con 2: Another issue.''])"
proof -
  have h2: "(\<lambda>rq. Inr \<lparr>choices = [\<lparr>message = \<lparr>content = PStr ''reply''\<rparr>\<rparr>]\<rparr> :: py_exc + response)
              (chat_request ''Some contract text'' default_model)
            = Inr \<lparr>choices = [\<lparr>message = \<lparr>content = PStr ''reply''\<rparr>\<rparr>]\<rparr>"
    by simp
  have h3: "choices \<lparr>choices = [\<lparr>message = \<lparr>content = PStr ''reply''\<rparr>\<rparr>]\<rparr>
            = \<lparr>message = \<lparr>content = PStr ''reply''\<rparr>\<rparr> # []"
    by simp
  have h4: "content (message \<lparr>message = \<lparr>content = PStr ''reply''\<rparr>\<rparr>) = PStr ''reply''"
    by simp
  have h5: "(\<lambda>s. Inr (PDict [(''simplified_contract'', PStr ''This is a simple summary.''),
                            (''cons'', PList [PStr ''Con 1: Bad clause.'',
                                              PStr ''Con 2: Another issue.''])])
              :: py_exc + pyval) ''reply''
            = Inr (PDict [(''simplified_contract'', PStr ''This is a simple summary.''),
                            (''cons'', PList [PStr ''Con 1: Bad clause.'',
                                              PStr ''Con 2: Another issue.''])])"
    by simp
  have h6: "map_of [(''simplified_contract'', PStr ''This is a simple summary.''),
                            (''cons'', PList [PStr ''Con 1: Bad clause.'',
                                              PStr ''Con 2: Another issue.''])] ''simplified_contract''
            = Some (PStr ''This is a simple summary.'')"
    by simp
  have h7: "map_of [(''simplified_contract'', PStr ''This is a simple summary.''),
                            (''cons'', PList [PStr ''Con 1: Bad clause.'',
                                              PStr ''Con 2: Another issue.''])] ''cons''
            = Some (PList (map PStr [''Con 1: Bad clause.'', ''Con 2: Another issue.'']))"
    by simp
  show ?thesis
    using analyze_well_formed [OF strip_sample_text h2 h3 h4 h5 h6 h7] by simp
qed

subsection \<open>Every path returns a pair\<close>

text \<open>
  Whatever the transport and the parser do, as long as what they raise derives from
  \<open>Exception\<close>, the call raises nothing and returns a pair whose second component is a
  list of strings. Nothing is shown of the first component: see C1.
\<close>

lemma ensure_cons_list: "\<exists>ss. ensure_cons v = PList (map PStr ss)"
proof (cases "\<exists>ss. v = PList (map PStr ss)")
  case True
  then show ?thesis by (auto simp: ensure_cons_ok)
next
  case False
  then have "ensure_cons v = PList (map PStr [cons_format_message])"
    by (simp add: ensure_cons_bad)
  then show ?thesis by (rule exI)
qed

lemma empty_str_list: "PList [] = PList (map PStr [])"
  by simp

lemma parse_reply_result:
  assumes "\<forall>s e. loads s = Inl e \<longrightarrow> is_Exception e"
  shows "(\<exists>e. parse_reply loads v = Inl e \<and> is_Exception e) \<or>
         (\<exists>s ss. parse_reply loads v = Inr (s, PList (map PStr ss)))"
proof (cases "parse_body loads v")
  case (Inr r)
  then obtain s cns where r: "r = (s, ensure_cons cns)"
    by (auto simp: parse_body_def split: sum.splits)
  obtain ss where "ensure_cons cns = PList (map PStr ss)"
    using ensure_cons_list by blast
  with Inr r have "parse_reply loads v = Inr (s, PList (map PStr ss))"
    by (simp add: parse_reply_def)
  then show ?thesis by blast
next
  case (Inl e)
  have exc: "is_Exception e"
    using Inl assms
    by (auto simp: parse_body_def json_loads_def dict_get_def is_Exception_def
        split: sum.splits pyval.splits)
  show ?thesis
  proof (cases "kind e = JSONDecodeError")
    case True
    show ?thesis
    proof (cases v)
      case (PStr t)
      with Inl True have "parse_reply loads v =
        Inr (PStr (''Failed to parse GPT response as JSON. The raw response was: '' @ t), PList (map PStr []))"
        by (simp add: parse_reply_def str_add_def)
      then show ?thesis by blast
    qed (use Inl True in \<open>simp_all add: parse_reply_def str_add_def is_Exception_def\<close>)
  next
    case False
    show ?thesis
    proof (cases "kind e = AttributeError")
      case True
      with Inl False have "parse_reply loads v =
        Inr (PStr ''Unexpected response structure from GPT.'', PList (map PStr []))"
        by (simp add: parse_reply_def)
      then show ?thesis by blast
    next
      case False
      with Inl \<open>kind e \<noteq> JSONDecodeError\<close> exc show ?thesis
        by (simp add: parse_reply_def)
    qed
  qed
qed

lemma call_body_result:
  assumes "\<forall>rq e. acreate rq = Inl e \<longrightarrow> is_Exception e"
    and "\<forall>s e. loads s = Inl e \<longrightarrow> is_Exception e"
  shows "(\<exists>e. call_body acreate loads rq = Inl e \<and> is_Exception e) \<or>
         (\<exists>s ss. call_body acreate loads rq = Inr (s, PList (map PStr ss)))"
proof (cases "acreate rq")
  case (Inl e)
  with assms(1) show ?thesis by (simp add: call_body_def)
next
  case (Inr resp)
  show ?thesis
  proof (cases "choices resp")
    case Nil
    with Inr show ?thesis
      by (simp add: call_body_def first_content_def is_Exception_def)
  next
    case (Cons c cs)
    with Inr have "call_body acreate loads rq = parse_reply loads (content (message c))"
      by (rule call_body_reply)
    with parse_reply_result [OF assms(2)] show ?thesis by simp
  qed
qed

lemma analyze_never_raises:
  assumes "\<forall>rq e. acreate rq = Inl e \<longrightarrow> is_Exception e"
    and "\<forall>s e. loads s = Inl e \<longrightarrow> is_Exception e"
  shows "\<exists>s ss. fst (analyze_contract_text acreate loads contract_text mdl w) =
           Inr (s, PList (map PStr ss))"
proof (cases "strip contract_text = []")
  case True
  then have "fst (analyze_contract_text acreate loads contract_text mdl w) =
      Inr (PStr ''The provided contract text is empty.'', PList (map PStr []))"
    by (simp add: analyze_contract_text_def)
  then show ?thesis by blast
next
  case False
  from call_body_result [OF assms, of "chat_request contract_text mdl"]
  show ?thesis
  proof
    assume "\<exists>e. call_body acreate loads (chat_request contract_text mdl) = Inl e \<and> is_Exception e"
    then obtain e where "call_body acreate loads (chat_request contract_text mdl) = Inl e"
      and "is_Exception e" by blast
    with False have "fst (analyze_contract_text acreate loads contract_text mdl w) =
      Inr (PStr ((if kind e = APIError then ''OpenAI API Error: ''
                     else ''An unexpected error occurred during analysis: '') @ str_of e), PList (map PStr []))"
      by (simp add: analyze_call)
    then show ?thesis by blast
  next
    assume "\<exists>s ss. call_body acreate loads (chat_request contract_text mdl) = Inr (s, PList (map PStr ss))"
    with False show ?thesis by (auto simp: analyze_call)
  qed
qed

text \<open>
  C1. The claim that the first component is always a string fails: the summary read from
  the reply is returned without a check of its type, while the cons beside it are
  checked. On the reply \<^verbatim>\<open>{"simplified_contract": 42, "cons": []}\<close> the call returns
  the pair of the number 42 and the empty list.
\<close>

theorem analyze_numeric_summary:
  "fst (analyze_contract_text
          (\<lambda>rq. Inr \<lparr>choices = [\<lparr>message = \<lparr>content = PStr numeric_summary_reply\<rparr>\<rparr>]\<rparr>)
          (\<lambda>s. Inr (PDict [(''simplified_contract'', PInt 42), (''cons'', PList [])]))
          ''Some contract text'' default_model \<lparr>requests = [], stdout = []\<rparr>)
   = Inr (PInt 42, PList [])
   \<and> \<not> isinstance_str (PInt 42)"
  using ensure_cons_ok [of "[]"]
  by (simp add: analyze_call strip_sample_text call_body_def first_content_def parse_reply_def
      parse_body_def json_loads_def dict_get_def isinstance_str_def)

section \<open>Properties of the endpoint\<close>

lemma lower_append: "lower (a @ b) = lower a @ lower b"
  by (simp add: lower_def)

lemma lower_pdf_variants: "list_all (\<lambda>ext. lower ext = ''.pdf'') pdf_extension_variants"
  by code_simp

lemma endswith_append: "endswith (a @ suf) suf"
  by (simp add: endswith_def suffix_def)

lemma variant_passes:
  "ext \<in> set pdf_extension_variants \<Longrightarrow> endswith (lower (stem @ ext)) ''.pdf''"
proof -
  assume "ext \<in> set pdf_extension_variants"
  with lower_pdf_variants have "lower ext = ''.pdf''"
    by (simp add: list_all_iff)
  then show ?thesis
    by (simp add: lower_append endswith_append)
qed

lemma details_differ: "invalid_content_type \<noteq> invalid_file_type"
  by (simp add: invalid_content_type_def invalid_file_type_def)

lemma endpoint_passed_name:
  "endswith (lower (filename f)) ''.pdf'' \<Longrightarrow>
   fst (analyze_contract_endpoint tmp_io PdfReader acreate loads f w)
     \<noteq> HTTPException 400 invalid_file_type"
  by (auto simp: analyze_contract_endpoint_def details_differ
      split: sum.splits prod.splits if_splits)

lemma endpoint_bad_name:
  "\<not> endswith (lower (filename f)) ''.pdf'' \<Longrightarrow>
   fst (analyze_contract_endpoint tmp_io PdfReader acreate loads f w)
     = HTTPException 400 invalid_file_type"
  by (simp add: analyze_contract_endpoint_def)

lemma endpoint_bad_content_type:
  "endswith (lower (filename f)) ''.pdf'' \<Longrightarrow> content_type f \<noteq> Some ''application/pdf'' \<Longrightarrow>
   fst (analyze_contract_endpoint tmp_io PdfReader acreate loads f w)
     = HTTPException 400 invalid_content_type"
  by (simp add: analyze_contract_endpoint_def)

lemma endpoint_no_text:
  "endswith (lower (filename f)) ''.pdf'' \<Longrightarrow> content_type f = Some ''application/pdf'' \<Longrightarrow>
   tmp_io (file_bytes f) = Inr pdf_bytes \<Longrightarrow>
   extract_text_from_pdf PdfReader pdf_bytes = Inr extracted_text \<Longrightarrow>
   strip extracted_text = [] \<Longrightarrow>
   fst (analyze_contract_endpoint tmp_io PdfReader acreate loads f w)
     = HTTPException 422 no_text_detail"
  by (simp add: analyze_contract_endpoint_def)

lemma endpoint_analysis:
  "endswith (lower (filename f)) ''.pdf'' \<Longrightarrow> content_type f = Some ''application/pdf'' \<Longrightarrow>
   tmp_io (file_bytes f) = Inr pdf_bytes \<Longrightarrow>
   extract_text_from_pdf PdfReader pdf_bytes = Inr extracted_text \<Longrightarrow>
   strip extracted_text \<noteq> [] \<Longrightarrow>
   fst (analyze_contract_text acreate loads extracted_text default_model w) = Inr (s, cns) \<Longrightarrow>
   cns \<noteq> PNone \<Longrightarrow>
   fst (analyze_contract_endpoint tmp_io PdfReader acreate loads f w)
     = Returned (PDict [(''original_filename'', PStr (filename f)),
                        (''simplified_contract'', s), (''cons'', cns)])"
  by (cases "analyze_contract_text acreate loads extracted_text default_model w")
     (simp add: analyze_contract_endpoint_def)

lemma endpoint_ok:
  assumes "endswith (lower (filename f)) ''.pdf''" and "content_type f = Some ''application/pdf''"
    and "tmp_io (file_bytes f) = Inr pdf_bytes"
    and "extract_text_from_pdf PdfReader pdf_bytes = Inr extracted_text"
    and "strip extracted_text \<noteq> []"
    and "acreate (chat_request extracted_text default_model) = Inr resp"
    and "choices resp = c # cs"
    and "content (message c) = PStr raw"
    and "loads raw = Inr (PDict [(''simplified_contract'', PStr x), (''cons'', PList [PStr y])])"
  shows "fst (analyze_contract_endpoint tmp_io PdfReader acreate loads f w)
     = Returned (PDict [(''original_filename'', PStr (filename f)),
                        (''simplified_contract'', PStr x), (''cons'', PList [PStr y])])"
proof -
  have "fst (analyze_contract_text acreate loads extracted_text default_model w)
        = Inr (PStr x, PList [PStr y])"
    using analyze_reply_object [where acreate = acreate and loads = loads and w = w, OF assms(5-9)] ensure_cons_ok [of "[y]"]
    by simp
  with assms(1-5) show ?thesis
    by (intro endpoint_analysis [where pdf_bytes = pdf_bytes and extracted_text = extracted_text])
       simp_all
qed

lemma txt_name_rejected: "\<not> endswith (lower ''test_contract.txt'') ''.pdf''"
  by code_simp

lemma pdf_name_accepted: "endswith (lower ''test_contract.pdf'') ''.pdf''"
  by code_simp

lemma scanned_no_text:
  "extract_text_from_pdf scanned_reader [0x25, 0x50, 0x44, 0x46] = Inr []"
  by code_simp

lemma text_reader_text:
  "extract_text_from_pdf text_reader [0x25, 0x50, 0x44, 0x46] = Inr ''This Agreement is made.''"
  by code_simp

lemma strip_agreement: "strip ''This Agreement is made.'' \<noteq> []"
  by (simp add: strip_def isspace_def)

text \<open>
  C10. The check of the file name ignores letter case: a file name that ends in any of
  the eight upper and lower case spellings of \<open>.pdf\<close> passes the test
  \<open>file.filename.lower().endswith(".pdf")\<close>, and the endpoint does not answer it with
  the 400 error "Invalid file type. Only PDF files are accepted.".
\<close>

theorem filename_check_ignores_case:
  assumes "ext \<in> set pdf_extension_variants"
  shows "endswith (lower (stem @ ext)) ''.pdf'' \<and>
         fst (analyze_contract_endpoint tmp_io PdfReader acreate loads
                (f\<lparr>filename := stem @ ext\<rparr>) w)
           \<noteq> HTTPException 400 invalid_file_type"
  using variant_passes [OF assms, of stem]
  by (simp add: endpoint_passed_name)

theorem filename_check_ignores_case_witness:
  "endswith (lower ''CONTRACT.PDF'') ''.pdf'' \<and>
   fst (analyze_contract_endpoint (\<lambda>b. Inr b)
          (\<lambda>b. Inl (PyExc PdfReadError ''EOF marker not found''))
          (\<lambda>rq. Inl (PyExc APIError ''unreachable''))
          (\<lambda>s. Inl (PyExc JSONDecodeError ''unused''))
          \<lparr>filename = ''CONTRACT.PDF'', content_type = Some ''application/pdf'', file_bytes = []\<rparr>
          \<lparr>requests = [], stdout = []\<rparr>)
     \<noteq> HTTPException 400 invalid_file_type"
proof -
  have h: "''.PDF'' \<in> set pdf_extension_variants"
    by (simp add: pdf_extension_variants_def)
  show ?thesis
    using filename_check_ignores_case [OF h, of "''CONTRACT''" "(\<lambda>b. Inr b)"
      "(\<lambda>b. Inl (PyExc PdfReadError ''EOF marker not found''))"
      "(\<lambda>rq. Inl (PyExc APIError ''unreachable''))"
      "(\<lambda>s. Inl (PyExc JSONDecodeError ''unused''))"
      "\<lparr>filename = ''x'', content_type = Some ''application/pdf'', file_bytes = []\<rparr>"
      "\<lparr>requests = [], stdout = []\<rparr>"]
    by simp
qed

text \<open>
  C9, as amended. The checks of the endpoint run in order, each on the uploads that
  passed the ones before. An upload whose lower-cased file name does not end in
  \<open>.pdf\<close> is answered 400 "Invalid file type. Only PDF files are accepted."; one whose
  name passes and whose declared content type is not \<open>application/pdf\<close> is answered 400
  "Invalid file content type. Expected application/pdf."; one that passes both, is saved
  and read back, and whose extracted text is empty or whitespace is answered 422; and one
  with extracted text whose reply parses to the object with \<open>simplified_contract\<close> "X"
  and \<open>cons\<close> ["Y"] is answered 200 with the body of \<open>original_filename\<close>,
  \<open>simplified_contract\<close> "X" and \<open>cons\<close> ["Y"].
\<close>

theorem endpoint_responses:
  "(\<not> endswith (lower (filename f)) ''.pdf'' \<longrightarrow>
      fst (analyze_contract_endpoint tmp_io PdfReader acreate loads f w)
        = HTTPException 400 invalid_file_type)
   \<and> (endswith (lower (filename f)) ''.pdf'' \<and> content_type f \<noteq> Some ''application/pdf'' \<longrightarrow>
      fst (analyze_contract_endpoint tmp_io PdfReader acreate loads f w)
        = HTTPException 400 invalid_content_type)
   \<and> (endswith (lower (filename f)) ''.pdf'' \<and> content_type f = Some ''application/pdf'' \<and>
      tmp_io (file_bytes f) = Inr pdf_bytes \<and>
      extract_text_from_pdf PdfReader pdf_bytes = Inr extracted_text \<and>
      strip extracted_text = [] \<longrightarrow>
      fst (analyze_contract_endpoint tmp_io PdfReader acreate loads f w)
        = HTTPException 422 no_text_detail)
   \<and> (endswith (lower (filename f)) ''.pdf'' \<and> content_type f = Some ''application/pdf'' \<and>
      tmp_io (file_bytes f) = Inr pdf_bytes \<and>
      extract_text_from_pdf PdfReader pdf_bytes = Inr extracted_text \<and>
      strip extracted_text \<noteq> [] \<and>
      acreate (chat_request extracted_text default_model) = Inr resp \<and>
      choices resp = c # cs \<and> content (message c) = PStr raw \<and>
      loads raw = Inr (PDict [(''simplified_contract'', PStr x), (''cons'', PList [PStr y])]) \<longrightarrow>
      fst (analyze_contract_endpoint tmp_io PdfReader acreate loads f w)
        = Returned (PDict [(''original_filename'', PStr (filename f)),
                           (''simplified_contract'', PStr x), (''cons'', PList [PStr y])])
      \<and> status_code (fst (analyze_contract_endpoint tmp_io PdfReader acreate loads f w)) = 200)"
proof (intro conjI impI)
  assume "\<not> endswith (lower (filename f)) ''.pdf''"
  then show "fst (analyze_contract_endpoint tmp_io PdfReader acreate loads f w)
        = HTTPException 400 invalid_file_type"
    by (rule endpoint_bad_name)
next
  assume "endswith (lower (filename f)) ''.pdf'' \<and> content_type f \<noteq> Some ''application/pdf''"
  then show "fst (analyze_contract_endpoint tmp_io PdfReader acreate loads f w)
        = HTTPException 400 invalid_content_type"
    by (simp add: endpoint_bad_content_type)
next
  assume "endswith (lower (filename f)) ''.pdf'' \<and> content_type f = Some ''application/pdf'' \<and>
      tmp_io (file_bytes f) = Inr pdf_bytes \<and>
      extract_text_from_pdf PdfReader pdf_bytes = Inr extracted_text \<and>
      strip extracted_text = []"
  then show "fst (analyze_contract_endpoint tmp_io PdfReader acreate loads f w)
        = HTTPException 422 no_text_detail"
    by (simp add: endpoint_no_text)
next
  assume a: "endswith (lower (filename f)) ''.pdf'' \<and> content_type f = Some ''application/pdf'' \<and>
      tmp_io (file_bytes f) = Inr pdf_bytes \<and>
      extract_text_from_pdf PdfReader pdf_bytes = Inr extracted_text \<and>
      strip extracted_text \<noteq> [] \<and>
      acreate (chat_request extracted_text default_model) = Inr resp \<and>
      choices resp = c # cs \<and> content (message c) = PStr raw \<and>
      loads raw = Inr (PDict [(''simplified_contract'', PStr x), (''cons'', PList [PStr y])])"
  then have r: "fst (analyze_contract_endpoint tmp_io PdfReader acreate loads f w)
        = Returned (PDict [(''original_filename'', PStr (filename f)),
                           (''simplified_contract'', PStr x), (''cons'', PList [PStr y])])"
    by (intro endpoint_ok [where pdf_bytes = pdf_bytes and extracted_text = extracted_text
          and resp = resp and c = c and cs = cs and raw = raw]) simp_all
  then show "fst (analyze_contract_endpoint tmp_io PdfReader acreate loads f w)
        = Returned (PDict [(''original_filename'', PStr (filename f)),
                           (''simplified_contract'', PStr x), (''cons'', PList [PStr y])])"
    by simp
  from r show "status_code (fst (analyze_contract_endpoint tmp_io PdfReader acreate loads f w)) = 200"
    by (simp add: status_code_def)
qed

theorem endpoint_responses_witness:
  "fst (analyze_contract_endpoint tmp_ok scanned_reader reply_transport reply_loads
          (sample_upload ''test_contract.txt'' (Some ''text/plain'')) fresh_world)
     = HTTPException 400 invalid_file_type
   \<and> fst (analyze_contract_endpoint tmp_ok scanned_reader reply_transport reply_loads
          (sample_upload ''test_contract.pdf'' (Some ''text/plain'')) fresh_world)
     = HTTPException 400 invalid_content_type
   \<and> fst (analyze_contract_endpoint tmp_ok scanned_reader reply_transport reply_loads
          (sample_upload ''test_contract.pdf'' (Some ''application/pdf'')) fresh_world)
     = HTTPException 422 no_text_detail
   \<and> fst (analyze_contract_endpoint tmp_ok text_reader reply_transport reply_loads
          (sample_upload ''test_contract.pdf'' (Some ''application/pdf'')) fresh_world)
     = Returned (PDict [(''original_filename'', PStr ''test_contract.pdf''),
                        (''simplified_contract'', PStr ''X''), (''cons'', PList [PStr ''Y''])])"
proof -
  have n1: "\<not> endswith (lower (filename (sample_upload ''test_contract.txt'' (Some ''text/plain'')))) ''.pdf''"
    using txt_name_rejected by (simp add: sample_upload_def)
  have p1: "fst (analyze_contract_endpoint tmp_ok scanned_reader reply_transport reply_loads
          (sample_upload ''test_contract.txt'' (Some ''text/plain'')) fresh_world)
     = HTTPException 400 invalid_file_type"
    using endpoint_responses [where f = "sample_upload ''test_contract.txt'' (Some ''text/plain'')"
        and tmp_io = tmp_ok and PdfReader = scanned_reader and acreate = reply_transport
        and loads = reply_loads and w = fresh_world] n1
    by blast
  have n2: "endswith (lower (filename (sample_upload ''test_contract.pdf'' (Some ''text/plain'')))) ''.pdf''
      \<and> content_type (sample_upload ''test_contract.pdf'' (Some ''text/plain'')) \<noteq> Some ''application/pdf''"
    using pdf_name_accepted by (simp add: sample_upload_def)
  have p2: "fst (analyze_contract_endpoint tmp_ok scanned_reader reply_transport reply_loads
          (sample_upload ''test_contract.pdf'' (Some ''text/plain'')) fresh_world)
     = HTTPException 400 invalid_content_type"
    using endpoint_responses [where f = "sample_upload ''test_contract.pdf'' (Some ''text/plain'')"
        and tmp_io = tmp_ok and PdfReader = scanned_reader and acreate = reply_transport
        and loads = reply_loads and w = fresh_world] n2
    by blast
  have n3: "endswith (lower (filename (sample_upload ''test_contract.pdf'' (Some ''application/pdf'')))) ''.pdf''
      \<and> content_type (sample_upload ''test_contract.pdf'' (Some ''application/pdf'')) = Some ''application/pdf''
      \<and> tmp_ok (file_bytes (sample_upload ''test_contract.pdf'' (Some ''application/pdf'')))
          = Inr [0x25, 0x50, 0x44, 0x46]
      \<and> extract_text_from_pdf scanned_reader [0x25, 0x50, 0x44, 0x46] = Inr []
      \<and> strip [] = []"
    using pdf_name_accepted scanned_no_text by (simp add: sample_upload_def tmp_ok_def strip_def)
  have p3: "fst (analyze_contract_endpoint tmp_ok scanned_reader reply_transport reply_loads
          (sample_upload ''test_contract.pdf'' (Some ''application/pdf'')) fresh_world)
     = HTTPException 422 no_text_detail"
    using endpoint_responses [where f = "sample_upload ''test_contract.pdf'' (Some ''application/pdf'')"
        and tmp_io = tmp_ok and PdfReader = scanned_reader and acreate = reply_transport
        and loads = reply_loads and w = fresh_world
        and pdf_bytes = "[0x25, 0x50, 0x44, 0x46]" and extracted_text = "[]"] n3
    by blast
  have n4: "endswith (lower (filename (sample_upload ''test_contract.pdf'' (Some ''application/pdf'')))) ''.pdf''
      \<and> content_type (sample_upload ''test_contract.pdf'' (Some ''application/pdf'')) = Some ''application/pdf''
      \<and> tmp_ok (file_bytes (sample_upload ''test_contract.pdf'' (Some ''application/pdf'')))
          = Inr [0x25, 0x50, 0x44, 0x46]
      \<and> extract_text_from_pdf text_reader [0x25, 0x50, 0x44, 0x46] = Inr ''This Agreement is made.''
      \<and> strip ''This Agreement is made.'' \<noteq> []
      \<and> reply_transport (chat_request ''This Agreement is made.'' default_model)
          = Inr \<lparr>choices = [\<lparr>message = \<lparr>content = PStr well_formed_reply\<rparr>\<rparr>]\<rparr>
      \<and> choices \<lparr>choices = [\<lparr>message = \<lparr>content = PStr well_formed_reply\<rparr>\<rparr>]\<rparr>
          = \<lparr>message = \<lparr>content = PStr well_formed_reply\<rparr>\<rparr> # []
      \<and> content (message \<lparr>message = \<lparr>content = PStr well_formed_reply\<rparr>\<rparr>) = PStr well_formed_reply
      \<and> reply_loads well_formed_reply
          = Inr (PDict [(''simplified_contract'', PStr ''X''), (''cons'', PList [PStr ''Y''])])"
    using pdf_name_accepted text_reader_text strip_agreement
    by (simp add: sample_upload_def tmp_ok_def reply_transport_def reply_loads_def)
  have p4: "fst (analyze_contract_endpoint tmp_ok text_reader reply_transport reply_loads
          (sample_upload ''test_contract.pdf'' (Some ''application/pdf'')) fresh_world)
     = Returned (PDict [(''original_filename'', PStr (filename (sample_upload ''test_contract.pdf'' (Some ''application/pdf'')))),
                        (''simplified_contract'', PStr ''X''), (''cons'', PList [PStr ''Y''])])"
    using endpoint_responses [where f = "sample_upload ''test_contract.pdf'' (Some ''application/pdf'')"
        and tmp_io = tmp_ok and PdfReader = text_reader and acreate = reply_transport
        and loads = reply_loads and w = fresh_world
        and pdf_bytes = "[0x25, 0x50, 0x44, 0x46]" and extracted_text = "''This Agreement is made.''"
        and resp = "\<lparr>choices = [\<lparr>message = \<lparr>content = PStr well_formed_reply\<rparr>\<rparr>]\<rparr>"
        and c = "\<lparr>message = \<lparr>content = PStr well_formed_reply\<rparr>\<rparr>" and cs = "[]"
        and raw = well_formed_reply and x = "''X''" and y = "''Y''"] n4
    by blast
  from p1 p2 p3 p4 show ?thesis
    by (simp add: sample_upload_def)
qed

text \<open>
  The claim as stated, without the order of the checks, fails at the upload
  \<open>test_contract.txt\<close> declared \<open>text/plain\<close>: its content type is not
  \<open>application/pdf\<close> and no text can be extracted from it, yet the answer is 400 with
  the message about the file type, neither the message about the content type nor 422.
\<close>

theorem endpoint_content_type_counterexample:
  "content_type (sample_upload ''test_contract.txt'' (Some ''text/plain''))
     \<noteq> Some ''application/pdf''
   \<and> fst (analyze_contract_endpoint tmp_ok scanned_reader reply_transport reply_loads
            (sample_upload ''test_contract.txt'' (Some ''text/plain'')) fresh_world)
       = HTTPException 400 invalid_file_type
   \<and> \<not> sublist ''Invalid file content type'' invalid_file_type
   \<and> extract_text_from_pdf scanned_reader
         (file_bytes (sample_upload ''test_contract.txt'' (Some ''text/plain''))) = Inr []
   \<and> status_code
         (fst (analyze_contract_endpoint tmp_ok scanned_reader reply_transport reply_loads
                 (sample_upload ''test_contract.txt'' (Some ''text/plain'')) fresh_world))
       \<noteq> 422"
proof -
  have r: "fst (analyze_contract_endpoint tmp_ok scanned_reader reply_transport reply_loads
            (sample_upload ''test_contract.txt'' (Some ''text/plain'')) fresh_world)
       = HTTPException 400 invalid_file_type"
    using txt_name_rejected by (simp add: analyze_contract_endpoint_def sample_upload_def)
  have s: "\<not> sublist ''Invalid file content type'' invalid_file_type"
    by code_simp
  have x: "extract_text_from_pdf scanned_reader
         (file_bytes (sample_upload ''test_contract.txt'' (Some ''text/plain''))) = Inr []"
    using scanned_no_text by (simp add: sample_upload_def)
  from r s x show ?thesis
    by (simp add: sample_upload_def status_code_def)
qed

end
